theory Spec2Isabelle
  imports Main "HOL-Library.Word"
begin

section \<open>The window abstraction of window.hpp\<close>

text \<open>
  A shallow embedding of \<^verbatim>\<open>src/fractals/src/window.hpp\<close> (namespace \<^verbatim>\<open>mono\<close>): the
  construction properties \<^verbatim>\<open>window_props\<close>, the mirrored block \<^verbatim>\<open>window::data\<close>, and the
  member functions whose bodies the header gives. The constructor, the destructor,
  \<^verbatim>\<open>swap\<close> and \<open>poll\<close> are only declared there and are not modelled.
\<close>

subsection \<open>Machine types\<close>

text \<open>
  \<^verbatim>\<open>std::int32_t\<close> is a 32-bit word read in two's complement by \<open>sint\<close>;
  \<^verbatim>\<open>std::size_t\<close> and object addresses are 64-bit words.
\<close>

type_synonym int32_t = "32 word"
type_synonym size_t = "64 word"
type_synonym GLFWwindow_ptr = "64 word"

definition INT32_MIN :: int32_t where
  "INT32_MIN = - (2 ^ 31)"

subsection \<open>std::to_string on a 32-bit signed integer\<close>

text \<open>
  The standard library renders the value as \<^verbatim>\<open>%d\<close> does: a minus sign for a negative
  value, then the decimal digits of the magnitude, most significant first, no padding.
\<close>

definition digit_char :: "nat \<Rightarrow> char" where
  "digit_char d = char_of (48 + d)"

fun dec_digits :: "nat \<Rightarrow> string" where
  "dec_digits n =
     (if n < 10 then [digit_char n] else dec_digits (n div 10) @ [digit_char (n mod 10)])"

declare dec_digits.simps [simp del]

definition to_string :: "int32_t \<Rightarrow> string" where
  "to_string v =
     (if sint v < 0 then CHR ''-'' # dec_digits (nat (- sint v)) else dec_digits (nat (sint v)))"

subsection \<open>window_props\<close>

text \<open>
  The struct of lines 26-32. Its fields carry the names of the source; the same names
  occur in \<^verbatim>\<open>window::data\<close>, so they are written qualified
  (\<open>window_props.width\<close>, \<open>data.width\<close>), as C++ qualifies them.
\<close>

record window_props =
  title :: string
  width :: int32_t
  height :: int32_t
  xpos :: int32_t
  ypos :: int32_t

text \<open>The default member initialisers: what \<^verbatim>\<open>window_props{}\<close> holds.\<close>

definition window_props_default :: window_props where
  "window_props_default =
     \<lparr> window_props.title = ''no title'',
       window_props.width = 738,
       window_props.height = 480,
       window_props.xpos = INT32_MIN,
       window_props.ypos = INT32_MIN \<rparr>"

subsection \<open>The mirrored data block and the window\<close>

text \<open>
  \<open>'t\<close> is \<^verbatim>\<open>event_type\<close> and \<open>'f\<close> is the value a
  \<^verbatim>\<open>std::function<void(event const&)>\<close> holds; both come from event.hpp, which the
  header only includes. \<^verbatim>\<open>std::unordered_map\<close> is a finite map; the registry maps an
  event type to a map from listener identities to callbacks.
\<close>

record ('t, 'f) data =
  title :: string
  width :: int32_t
  height :: int32_t
  buffer_width :: int32_t
  buffer_height :: int32_t
  xpos :: int32_t
  ypos :: int32_t
  events :: "'t \<rightharpoonup> (size_t \<rightharpoonup> 'f)"

text \<open>
  \<^verbatim>\<open>ref<state::key>\<close> is a shared reference to a key state object; here it is the
  address of the object in the heap of key states below, \<open>0\<close> being the null reference.
\<close>

type_synonym key_ref = nat

record ('t, 'f) window =
  m_window :: GLFWwindow_ptr
  m_keys :: "key_ref list"
  m_data :: "('t, 'f) data"

subsection \<open>str\<close>

text \<open>
  Lines 85-93: the string is built by five appends to the initial
  \<^verbatim>\<open>"mono::window { "\<close>. Each \<open>let\<close> is one \<^verbatim>\<open>str += ...\<close> statement.
\<close>

definition str :: "('t, 'f) window \<Rightarrow> string" where
  \<open>str w =
     (let s0 = ''mono::window { '';
          s1 = s0 @ (''title: "'' @ data.title (m_data w) @ ''", '');
          s2 = s1 @ (''width: '' @ to_string (data.width (m_data w)) @ '', '');
          s3 = s2 @ (''height: '' @ to_string (data.height (m_data w)) @ '', '');
          s4 = s3 @ (''buffer_width: '' @ to_string (data.buffer_width (m_data w)) @ '', '');
          s5 = s4 @ (''buffer_height: '' @ to_string (data.buffer_height (m_data w)) @ '' }'')
      in s5)\<close>

text \<open>A string is a single line when it holds neither a line feed nor a carriage return.\<close>

definition single_line :: "string \<Rightarrow> bool" where
  "single_line s = list_all (\<lambda>c. c \<noteq> CHR 0x0A \<and> c \<noteq> CHR 0x0D) s"

subsection \<open>The listener registry\<close>

text \<open>
  \<^verbatim>\<open>unordered_map::insert\<close> stores the pair only when the key is absent and leaves an
  existing entry as it is; \<^verbatim>\<open>erase(key)\<close> removes the entry of the key, if any.
\<close>

definition umap_insert :: "('k \<rightharpoonup> 'v) \<Rightarrow> 'k \<Rightarrow> 'v \<Rightarrow> ('k \<rightharpoonup> 'v)" where
  "umap_insert m k v = (case m k of None \<Rightarrow> m(k \<mapsto> v) | Some _ \<Rightarrow> m)"

definition umap_erase :: "('k \<rightharpoonup> 'v) \<Rightarrow> 'k \<Rightarrow> ('k \<rightharpoonup> 'v)" where
  "umap_erase m k = m(k := None)"

text \<open>
  Both member templates take \<^verbatim>\<open>Callable const& func\<close>: a reference to a callable
  object of any class. What the bodies read of it is the value of the expression
  \<^verbatim>\<open>(std::size_t)&func\<close> and the object's value, which \<^verbatim>\<open>event_fn{func}\<close> copies into
  the registry. A reference carries, as they are at the call: where the object is stored;
  what a unary \<^verbatim>\<open>operator&\<close> of the object's class returns for it, converted to
  \<^verbatim>\<open>std::size_t\<close>, when the class overloads that operator; and the object's value.
\<close>

record 'f callable =
  storage :: size_t
  unary_amp :: "size_t option"
  target :: 'f

text \<open>
  The value of \<^verbatim>\<open>(std::size_t)&func\<close>: the built-in operator gives the address of the
  object's storage, an overloaded one whatever it returns.
\<close>

definition address :: "'f callable \<Rightarrow> size_t" where
  "address func = (case unary_amp func of None \<Rightarrow> storage func | Some v \<Rightarrow> v)"

text \<open>
  Lines 56-67. When the type has no listener map yet, a map holding the one listener is
  inserted; otherwise \<^verbatim>\<open>m_data.events[type]\<close> is the existing map and the listener is
  inserted into it.
\<close>

definition add_event_listener ::
  "'t \<Rightarrow> 'f callable \<Rightarrow> ('t, 'f) window \<Rightarrow> size_t \<times> ('t, 'f) window" where
  "add_event_listener type func w =
     (let id = address func in
      case data.events (m_data w) type of
        None \<Rightarrow>
          (let fns = umap_insert Map.empty id (target func)
           in (id, w\<lparr>m_data := (m_data w)
                 \<lparr>data.events := umap_insert (data.events (m_data w)) type fns\<rparr>\<rparr>))
      | Some fns \<Rightarrow>
          (id, w\<lparr>m_data := (m_data w)
             \<lparr>data.events := (data.events (m_data w))
                (type \<mapsto> umap_insert fns id (target func))\<rparr>\<rparr>))"

text \<open>Lines 68-74: the entry of the identity is erased from the type's map, if the type has one.\<close>

definition remove_event_listener ::
  "'t \<Rightarrow> 'f callable \<Rightarrow> ('t, 'f) window \<Rightarrow> ('t, 'f) window" where
  "remove_event_listener type func w =
     (let id = address func in
      case data.events (m_data w) type of
        None \<Rightarrow> w
      | Some fns \<Rightarrow>
          w\<lparr>m_data := (m_data w)
            \<lparr>data.events := (data.events (m_data w))(type \<mapsto> umap_erase fns id)\<rparr>\<rparr>)"

text \<open>
  What the registry holds for an event type and a listener identity: the callback a
  dispatch of that type would find under that identity, if any.
\<close>

definition registered :: "('t, 'f) window \<Rightarrow> 't \<Rightarrow> size_t \<Rightarrow> 'f option" where
  "registered w type ident =
     (case data.events (m_data w) type of None \<Rightarrow> None | Some fns \<Rightarrow> fns ident)"

subsection \<open>The native backend\<close>

text \<open>
  GLFW is an external collaborator. Its state is a parameter \<open>'b\<close>, and the four entry
  points the header calls are the fields of an adapter record, so that every statement
  below holds for whatever the backend does. A call may change the backend's state (a
  key query resets a sticky key, a position request moves the window or is rejected);
  \<open>'d\<close> is \<^verbatim>\<open>double\<close>, which the header only passes through. The backend holds the
  address of the window's data block as the user pointer of the handle (lines 113-115),
  and the callbacks the constructor registers write the block through it. The three
  queries read the backend's own state. A position request can make the backend run the
  move callback before it returns, so \<open>glfwSetWindowPos\<close> is given the data block with
  the backend's state and returns both as it leaves them.
\<close>

record ('b, 'd, 't, 'f) glfw =
  glfwWindowShouldClose :: "GLFWwindow_ptr \<Rightarrow> 'b \<Rightarrow> int32_t \<times> 'b"
  glfwSetWindowPos ::
    "GLFWwindow_ptr \<Rightarrow> int32_t \<Rightarrow> int32_t \<Rightarrow> 'b \<times> ('t, 'f) data \<Rightarrow> 'b \<times> ('t, 'f) data"
  glfwGetTime :: "'b \<Rightarrow> 'd \<times> 'b"
  glfwGetKey :: "GLFWwindow_ptr \<Rightarrow> int32_t \<Rightarrow> 'b \<Rightarrow> int32_t \<times> 'b"

subsection \<open>Queries and set_position\<close>

text \<open>
  Lines 42-54. A member function takes the window and the backend's state and returns
  its result with the two as it leaves them. The \<^verbatim>\<open>int\<close> that
  \<^verbatim>\<open>glfwWindowShouldClose\<close> returns converts to \<^verbatim>\<open>bool\<close>: true when it is not zero.
  The body of \<open>set_position\<close> is the one call of \<open>glfwSetWindowPos\<close>; the data block
  after it is the one the backend leaves.
\<close>

definition shouldclose ::
  "('b, 'd, 't, 'f) glfw \<Rightarrow> ('t, 'f) window \<times> 'b \<Rightarrow> bool \<times> (('t, 'f) window \<times> 'b)" where
  "shouldclose api =
     (\<lambda>(w, b). let (r, b') = glfwWindowShouldClose api (m_window w) b in (r \<noteq> 0, (w, b')))"

definition width :: "('t, 'f) window \<times> 'b \<Rightarrow> int32_t \<times> (('t, 'f) window \<times> 'b)" where
  "width = (\<lambda>(w, b). (data.width (m_data w), (w, b)))"

definition height :: "('t, 'f) window \<times> 'b \<Rightarrow> int32_t \<times> (('t, 'f) window \<times> 'b)" where
  "height = (\<lambda>(w, b). (data.height (m_data w), (w, b)))"

definition buffer_width :: "('t, 'f) window \<times> 'b \<Rightarrow> int32_t \<times> (('t, 'f) window \<times> 'b)" where
  "buffer_width = (\<lambda>(w, b). (data.buffer_width (m_data w), (w, b)))"

definition buffer_height :: "('t, 'f) window \<times> 'b \<Rightarrow> int32_t \<times> (('t, 'f) window \<times> 'b)" where
  "buffer_height = (\<lambda>(w, b). (data.buffer_height (m_data w), (w, b)))"

definition xpos :: "('t, 'f) window \<times> 'b \<Rightarrow> int32_t \<times> (('t, 'f) window \<times> 'b)" where
  "xpos = (\<lambda>(w, b). (data.xpos (m_data w), (w, b)))"

definition ypos :: "('t, 'f) window \<times> 'b \<Rightarrow> int32_t \<times> (('t, 'f) window \<times> 'b)" where
  "ypos = (\<lambda>(w, b). (data.ypos (m_data w), (w, b)))"

definition set_position ::
  "('b, 'd, 't, 'f) glfw \<Rightarrow> int32_t \<Rightarrow> int32_t \<Rightarrow> ('t, 'f) window \<times> 'b \<Rightarrow> ('t, 'f) window \<times> 'b" where
  "set_position api x y =
     (\<lambda>(w, b). let (b', d') = glfwSetWindowPos api (m_window w) x y (b, m_data w)
              in (w\<lparr>m_data := d'\<rparr>, b'))"

definition time ::
  "('b, 'd, 't, 'f) glfw \<Rightarrow> ('t, 'f) window \<times> 'b \<Rightarrow> 'd \<times> (('t, 'f) window \<times> 'b)" where
  "time api = (\<lambda>(w, b). let (t, b') = glfwGetTime api b in (t, (w, b')))"

definition get_key ::
  "('b, 'd, 't, 'f) glfw \<Rightarrow> int32_t \<Rightarrow> ('t, 'f) window \<times> 'b \<Rightarrow> int32_t \<times> (('t, 'f) window \<times> 'b)" where
  "get_key api key =
     (\<lambda>(w, b). let (r, b') = glfwGetKey api (m_window w) key b in (r, (w, b')))"

subsection \<open>Key states\<close>

text \<open>
  Modelled from the spec: \<^verbatim>\<open>ref<T>\<close> (mono.hpp) and \<^verbatim>\<open>state::key\<close> with its factory
  \<^verbatim>\<open>state::key::make\<close> (input.hpp) are not among the sources. The spec describes a key
  state as a reference-counted object that wraps one key code, created on demand and
  shared between the window and any number of external holders. A cell is such an object
  with the count of the shared references to it. The heap is the list of all cells ever
  made: the reference \<open>r > 0\<close> addresses position \<open>r - 1\<close>, a destroyed object leaves
  \<open>None\<close> there, and reference \<open>0\<close> is null.
\<close>

record key_cell =
  code :: int32_t
  use_count :: nat

type_synonym key_heap = "key_cell option list"

definition heap_get :: "key_heap \<Rightarrow> key_ref \<Rightarrow> key_cell option" where
  "heap_get h r = (if r = 0 \<or> length h < r then None else h ! (r - 1))"

text \<open>The factory: a new object for the code, and the one reference to it.\<close>

definition key_make :: "int32_t \<Rightarrow> key_heap \<Rightarrow> key_ref \<times> key_heap" where
  "key_make k h = (Suc (length h), h @ [Some \<lparr>code = k, use_count = 1\<rparr>])"

text \<open>Copying a shared reference adds a holder.\<close>

definition ref_copy :: "key_ref \<Rightarrow> key_heap \<Rightarrow> key_heap" where
  "ref_copy r h =
     (case heap_get h r of
        None \<Rightarrow> h
      | Some c \<Rightarrow> h[r - 1 := Some (c\<lparr>use_count := Suc (use_count c)\<rparr>)])"

text \<open>Releasing one removes a holder; the last release destroys the object.\<close>

definition ref_release :: "key_ref \<Rightarrow> key_heap \<Rightarrow> key_heap" where
  "ref_release r h =
     (case heap_get h r of
        None \<Rightarrow> h
      | Some c \<Rightarrow>
          if use_count c \<le> 1 then h[r - 1 := None]
          else h[r - 1 := Some (c\<lparr>use_count := use_count c - 1\<rparr>)])"

text \<open>
  Lines 79-82. The reference the factory returns is moved into \<^verbatim>\<open>m_keys\<close> by
  \<^verbatim>\<open>push_back\<close>, so the count stays at one; returning \<^verbatim>\<open>m_keys.back()\<close> by value copies
  it for the caller.
\<close>

definition make_key ::
  "int32_t \<Rightarrow> ('t, 'f) window \<times> key_heap \<Rightarrow> key_ref \<times> (('t, 'f) window \<times> key_heap)" where
  "make_key key =
     (\<lambda>(w, h).
        let (r, h1) = key_make key h;
            w1 = w\<lparr>m_keys := m_keys w @ [r]\<rparr>;
            h2 = ref_copy (last (m_keys w1)) h1
        in (last (m_keys w1), (w1, h2)))"

subsection \<open>Sequences of calls\<close>

text \<open>
  The member functions the header defines, as calls with their arguments, and what a
  call leaves of the window, the backend and the key states.
\<close>

datatype ('t, 'f) call =
    Shouldclose
  | Width
  | Height
  | Buffer_width
  | Buffer_height
  | Xpos
  | Ypos
  | Set_position int32_t int32_t
  | Time
  | Add_event_listener 't "'f callable"
  | Remove_event_listener 't "'f callable"
  | Get_key int32_t
  | Make_key int32_t
  | Str

type_synonym ('t, 'f, 'b) world = "('t, 'f) window \<times> 'b \<times> key_heap"

definition on_backend ::
  "(('t, 'f) window \<times> 'b \<Rightarrow> ('t, 'f) window \<times> 'b) \<Rightarrow> ('t, 'f, 'b) world \<Rightarrow> ('t, 'f, 'b) world" where
  "on_backend f = (\<lambda>(w, b, h). let (w', b') = f (w, b) in (w', b', h))"

primrec exec :: "('b, 'd, 't, 'f) glfw \<Rightarrow> ('t, 'f) call \<Rightarrow> ('t, 'f, 'b) world \<Rightarrow> ('t, 'f, 'b) world" where
  "exec api Shouldclose = on_backend (\<lambda>s. snd (shouldclose api s))"
| "exec api Width = on_backend (\<lambda>s. snd (width s))"
| "exec api Height = on_backend (\<lambda>s. snd (height s))"
| "exec api Buffer_width = on_backend (\<lambda>s. snd (buffer_width s))"
| "exec api Buffer_height = on_backend (\<lambda>s. snd (buffer_height s))"
| "exec api Xpos = on_backend (\<lambda>s. snd (xpos s))"
| "exec api Ypos = on_backend (\<lambda>s. snd (ypos s))"
| "exec api (Set_position x y) = on_backend (set_position api x y)"
| "exec api Time = on_backend (\<lambda>s. snd (time api s))"
| "exec api (Add_event_listener type func) =
     (\<lambda>(w, b, h). (snd (add_event_listener type func w), b, h))"
| "exec api (Remove_event_listener type func) =
     (\<lambda>(w, b, h). (remove_event_listener type func w, b, h))"
| "exec api (Get_key key) = on_backend (\<lambda>s. snd (get_key api key s))"
| "exec api (Make_key key) =
     (\<lambda>(w, b, h). let (w', h') = snd (make_key key (w, h)) in (w', b, h'))"
| "exec api Str = (\<lambda>s. s)"

definition run :: "('b, 'd, 't, 'f) glfw \<Rightarrow> ('t, 'f) call list \<Rightarrow> ('t, 'f, 'b) world \<Rightarrow> ('t, 'f, 'b) world" where
  "run api calls s = fold (exec api) calls s"


subsection \<open>Concrete windows, callables and a backend\<close>

text \<open>
  Inputs at which the statements below are evaluated. Event types are numbered and a
  callable's value is the name of what it runs.
\<close>

definition example_data :: "(nat, string) data" where
  "example_data =
     \<lparr> data.title = ''fractals'',
       data.width = 738,
       data.height = 480,
       data.buffer_width = 1476,
       data.buffer_height = 960,
       data.xpos = 100,
       data.ypos = 50,
       data.events = Map.empty \<rparr>"

definition example_window :: "(nat, string) window" where
  "example_window = \<lparr> m_window = 0x1000, m_keys = [], m_data = example_data \<rparr>"

text \<open>
  Two closures with different bodies that occupy the same storage one after the other
  (two temporaries of consecutive statements), and a copy of the first elsewhere. A
  closure type has no \<^verbatim>\<open>operator&\<close> of its own.
\<close>

definition on_resize :: "string callable" where
  "on_resize = \<lparr> storage = 0x7FFC2A10, unary_amp = None, target = ''on_resize'' \<rparr>"

definition on_close :: "string callable" where
  "on_close = \<lparr> storage = 0x7FFC2A10, unary_amp = None, target = ''on_close'' \<rparr>"

definition on_resize_copy :: "string callable" where
  "on_resize_copy = \<lparr> storage = 0x7FFC2A40, unary_amp = None, target = ''on_resize'' \<rparr>"

text \<open>
  Two function objects of a class whose \<^verbatim>\<open>operator&\<close> returns a fixed value, stored
  at different addresses.
\<close>

definition tagged_resize :: "string callable" where
  "tagged_resize =
     \<lparr> storage = 0x7FFC2A10, unary_amp = Some 0x1234, target = ''on_resize'' \<rparr>"

definition tagged_close :: "string callable" where
  "tagged_close =
     \<lparr> storage = 0x7FFC2A40, unary_amp = Some 0x1234, target = ''on_close'' \<rparr>"

definition resize_registered :: "(nat, string) window" where
  "resize_registered = snd (add_event_listener 0 on_resize example_window)"

text \<open>A window whose title holds a line feed, and one that differs from the example
  in everything \<open>str\<close> does not print.\<close>

definition two_line_window :: "(nat, string) window" where
  "two_line_window =
     example_window\<lparr>m_data := example_data\<lparr>data.title := [CHR ''a'', CHR 0x0A, CHR ''b'']\<rparr>\<rparr>"

definition moved_window :: "(nat, string) window" where
  "moved_window =
     \<lparr> m_window = 0x2000,
       m_keys = [1, 2],
       m_data = example_data
         \<lparr>data.xpos := 7, data.ypos := - 3, data.events := [0 \<mapsto> [5 \<mapsto> ''on_move'']]\<rparr> \<rparr>"


text \<open>
  Two backends that keep a close flag and the position last requested. The first
  leaves the move callback to the event pump; the second runs it inside
  \<open>glfwSetWindowPos\<close>.
\<close>

record fake_backend =
  close_flag :: int32_t
  position :: "int32_t \<times> int32_t"

definition fake_glfw :: "(fake_backend, unit, 't, 'f) glfw" where
  "fake_glfw =
     \<lparr> glfwWindowShouldClose = (\<lambda>p b. (close_flag b, b)),
       glfwSetWindowPos = (\<lambda>p x y (b, d). (b\<lparr>position := (x, y)\<rparr>, d)),
       glfwGetTime = (\<lambda>b. ((), b)),
       glfwGetKey = (\<lambda>p k b. (0, b)) \<rparr>"


definition fake_open :: fake_backend where
  "fake_open = \<lparr> close_flag = 0, position = (100, 50) \<rparr>"

definition fake_closing :: fake_backend where
  "fake_closing = \<lparr> close_flag = 1, position = (100, 50) \<rparr>"

section \<open>Properties\<close>

subsection \<open>Decimal rendering\<close>

lemma of_char_digit_char: "d < 10 \<Longrightarrow> (of_char (digit_char d) :: nat) = 48 + d"
  by (simp add: digit_char_def)

lemma digit_char_not_break: "d < 10 \<Longrightarrow> digit_char d \<noteq> CHR 0x0A \<and> digit_char d \<noteq> CHR 0x0D"
proof
  assume d: "d < 10"
  show "digit_char d \<noteq> CHR 0x0A"
  proof
    assume "digit_char d = CHR 0x0A"
    then have "(of_char (digit_char d) :: nat) = of_char (CHR 0x0A)" by simp
    with d show False by (simp add: of_char_digit_char)
  qed
  show "digit_char d \<noteq> CHR 0x0D"
  proof
    assume "digit_char d = CHR 0x0D"
    then have "(of_char (digit_char d) :: nat) = of_char (CHR 0x0D)" by simp
    with d show False by (simp add: of_char_digit_char)
  qed
qed

lemma dec_digits_single_line: "single_line (dec_digits n)"
proof (induction n rule: dec_digits.induct)
  case (1 n)
  show ?case
  proof (cases "n < 10")
    case True
    then show ?thesis
      using digit_char_not_break [of n]
      by (subst dec_digits.simps) (simp add: single_line_def)
  next
    case False
    have "n mod 10 < 10" by simp
    then have "digit_char (n mod 10) \<noteq> CHR 0x0A \<and> digit_char (n mod 10) \<noteq> CHR 0x0D"
      by (rule digit_char_not_break)
    with False "1.IH" show ?thesis
      by (subst dec_digits.simps) (simp add: single_line_def)
  qed
qed

lemma to_string_single_line: "single_line (to_string v)"
  using dec_digits_single_line [of "nat (- sint v)"] dec_digits_single_line [of "nat (sint v)"]
  by (simp add: to_string_def single_line_def)

lemma single_line_append: "single_line (xs @ ys) = (single_line xs \<and> single_line ys)"
  by (simp add: single_line_def)

lemma str_unfold:
  \<open>str w =
     ''mono::window { title: "'' @ data.title (m_data w) @
     ''", width: '' @ to_string (data.width (m_data w)) @
     '', height: '' @ to_string (data.height (m_data w)) @
     '', buffer_width: '' @ to_string (data.buffer_width (m_data w)) @
     '', buffer_height: '' @ to_string (data.buffer_height (m_data w)) @ '' }''\<close>
  by (simp add: str_def)

lemma to_string_738: "to_string 738 = ''738''"
  by code_simp

lemma to_string_neg: "to_string (- 5) = ''-5''"
  by code_simp

subsection \<open>The listener registry\<close>

lemma umap_erase_absent: "m k = None \<Longrightarrow> umap_erase m k = m"
  by (auto simp: umap_erase_def)

lemma remove_absent:
  assumes "registered w type (address func) = None"
  shows "remove_event_listener type func w = w"
proof (cases "data.events (m_data w) type")
  case None
  then show ?thesis by (simp add: remove_event_listener_def)
next
  case (Some fns)
  with assms have "fns (address func) = None" by (simp add: registered_def)
  then have "umap_erase fns (address func) = fns" by (rule umap_erase_absent)
  with Some have "(data.events (m_data w))(type \<mapsto> umap_erase fns (address func)) = data.events (m_data w)"
    by (simp add: map_upd_triv)
  with Some show ?thesis by (simp add: remove_event_listener_def)
qed

lemma remove_no_map: "data.events (m_data w) type = None \<Longrightarrow> remove_event_listener type func w = w"
  by (simp add: remove_event_listener_def)

lemma remove_twice: "remove_event_listener type func (remove_event_listener type func w) = remove_event_listener type func w"
  by (auto simp: remove_event_listener_def umap_erase_def  split: option.splits)

lemma add_present: "registered w type (address func) = Some cb \<Longrightarrow> add_event_listener type func w = (address func, w)"
  by (auto simp: registered_def add_event_listener_def umap_insert_def map_upd_triv split: option.splits)

lemma add_id: "fst (add_event_listener type func w) = address func"
  by (auto simp: add_event_listener_def Let_def split: option.splits)

lemma registered_remove: "registered (remove_event_listener type func w) ty i =
   (if ty = type \<and> i = address func then None else registered w ty i)"
  by (auto simp: registered_def remove_event_listener_def umap_erase_def  split: option.splits)

lemma registered_add: "registered (snd (add_event_listener type func w)) ty i =
   (if ty = type \<and> i = address func \<and> registered w ty i = None then Some (target func) else registered w ty i)"
  by (auto simp: registered_def add_event_listener_def umap_insert_def Let_def split: option.splits)

lemma registered_example: "registered example_window ty i = None"
  by (simp add: registered_def example_window_def example_data_def)

lemma registered_resize: "registered resize_registered ty i =
   (if ty = 0 \<and> i = 0x7FFC2A10 then Some ''on_resize'' else None)"
  by (simp add: resize_registered_def registered_add registered_example on_resize_def
      address_def)

text \<open>
  C1, as the code has it: the identity \<open>add_event_listener\<close> returns is the value of
  \<^verbatim>\<open>(std::size_t)&func\<close> for the callable it was passed, which is the storage address of
  the object when its class does not overload unary \<^verbatim>\<open>&\<close> and what the overloaded
  operator returns otherwise; the callable's value is stored under that identity unless
  the type already has a listener there. Two registrations get different identities
  exactly when these values differ, and \<open>remove_event_listener\<close> removes the
  registration of the type whose identity is that value for the object presented,
  whatever the object's own value, and leaves every other registration as it was.
\<close>

theorem listener_identity_is_address:
  "fst (add_event_listener type func w) = address func
   \<and> address func = (case unary_amp func of None \<Rightarrow> storage func | Some v \<Rightarrow> v)
   \<and> (fst (add_event_listener type1 func1 w1) = fst (add_event_listener type2 func2 w2))
       = (address func1 = address func2)
   \<and> registered (snd (add_event_listener type func w)) ty i
       = (if ty = type \<and> i = address func \<and> registered w ty i = None
          then Some (target func) else registered w ty i)
   \<and> registered (remove_event_listener type func w) ty i
       = (if ty = type \<and> i = address func then None else registered w ty i)"
proof -
  have "address func = (case unary_amp func of None \<Rightarrow> storage func | Some v \<Rightarrow> v)"
    by (simp add: address_def)
  then show ?thesis
    by (simp add: add_id registered_add registered_remove)
qed

text \<open>
  With an overloaded \<^verbatim>\<open>operator&\<close> two objects stored at different addresses share one
  identity, and the second is not registered.
\<close>

lemma overloaded_amp_collision:
  "storage tagged_resize \<noteq> storage tagged_close
   \<and> fst (add_event_listener 0 tagged_resize example_window) = 0x1234
   \<and> fst (add_event_listener 0 tagged_close
             (snd (add_event_listener 0 tagged_resize example_window))) = 0x1234
   \<and> registered (snd (add_event_listener 0 tagged_close
             (snd (add_event_listener 0 tagged_resize example_window)))) 0 0x1234
       = Some ''on_resize''"
  by (simp add: add_id registered_add registered_example tagged_resize_def tagged_close_def
      address_def)

text \<open>
  C1 as stated fails: \<open>on_resize\<close> and \<open>on_close\<close> are distinct callables at one
  address. They get the same identity, and presenting \<open>on_close\<close> removes the listener
  that was registered with \<open>on_resize\<close>, while presenting a copy of \<open>on_resize\<close>
  that is stored elsewhere removes nothing.
\<close>

theorem listener_identity_collision:
  "on_resize \<noteq> on_close
   \<and> fst (add_event_listener 0 on_resize example_window) = fst (add_event_listener 0 on_close resize_registered)
   \<and> registered resize_registered 0 (address on_resize) = Some ''on_resize''
   \<and> registered (remove_event_listener 0 on_close resize_registered) 0 (address on_resize) = None
   \<and> target on_resize_copy = target on_resize
   \<and> registered (remove_event_listener 0 on_resize_copy resize_registered) 0 (address on_resize)
       = Some ''on_resize''"
  by (simp add: add_id registered_remove registered_resize on_resize_def on_close_def
      on_resize_copy_def address_def)

text \<open>
  C2: \<open>remove_event_listener\<close> returns the window unchanged when the registry holds
  nothing for the type under the callable's identity, in particular when the type has
  no listener map; and a second call with the same arguments changes nothing. The
  function has no failing branch.
\<close>

theorem remove_event_listener_idempotent:
  "(registered w type (address func) = None \<longrightarrow> remove_event_listener type func w = w)
   \<and> (data.events (m_data w) type = None \<longrightarrow> remove_event_listener type func w = w)
   \<and> remove_event_listener type func (remove_event_listener type func w)
       = remove_event_listener type func w"
  by (simp add: remove_absent remove_no_map remove_twice)

theorem remove_event_listener_idempotent_witness:
  "registered example_window 0 (address on_resize) = None
   \<and> data.events (m_data example_window) 0 = None
   \<and> remove_event_listener 0 on_resize example_window = example_window
   \<and> registered resize_registered 0 (address on_resize_copy) = None
   \<and> remove_event_listener 0 on_resize_copy resize_registered = resize_registered"
proof -
  have h1: "registered example_window 0 (address on_resize) = None"
    by (simp add: registered_example)
  have h2: "data.events (m_data example_window) 0 = None"
    by (simp add: example_window_def example_data_def)
  have h3: "registered resize_registered 0 (address on_resize_copy) = None"
    by (simp add: registered_resize on_resize_copy_def address_def)
  from h1 remove_event_listener_idempotent [of example_window 0 on_resize]
  have r1: "remove_event_listener 0 on_resize example_window = example_window"
    by blast
  from h3 remove_event_listener_idempotent [of resize_registered 0 on_resize_copy]
  have r2: "remove_event_listener 0 on_resize_copy resize_registered = resize_registered"
    by blast
  from h1 h2 h3 r1 r2 show ?thesis by blast
qed

text \<open>
  C9: when the registry already holds a callback for the type under the identity of the
  callable passed, \<open>add_event_listener\<close> returns that identity and leaves the window,
  and with it the stored callback, as it was.
\<close>

theorem add_event_listener_keeps_existing:
  "registered w type (address func) = Some cb \<Longrightarrow>
     add_event_listener type func w = (address func, w)
     \<and> registered (snd (add_event_listener type func w)) type (address func) = Some cb"
  by (simp add: add_present)

theorem add_event_listener_keeps_existing_witness:
  "registered resize_registered 0 (address on_close) = Some ''on_resize''
   \<and> target on_close \<noteq> ''on_resize''
   \<and> add_event_listener 0 on_close resize_registered = (address on_close, resize_registered)
   \<and> registered (snd (add_event_listener 0 on_close resize_registered)) 0 (address on_close) = Some ''on_resize''"
  using add_event_listener_keeps_existing [of resize_registered 0 on_close "''on_resize''"]
  by (simp add: registered_resize on_close_def address_def)

subsection \<open>window_props\<close>

text \<open>
  C4: a default-constructed \<open>window_props\<close> has the title, width, height and position
  fields, with width 738 and height 480, and both coordinates of the position equal to
  \<open>INT32_MIN\<close>, the smallest 32-bit value, which stands for a position left to the
  backend.
\<close>

theorem window_props_default_values:
  "window_props.title window_props_default = ''no title''
   \<and> window_props.width window_props_default = 738
   \<and> window_props.height window_props_default = 480
   \<and> sint (window_props.width window_props_default) = 738
   \<and> sint (window_props.height window_props_default) = 480
   \<and> window_props.xpos window_props_default = INT32_MIN
   \<and> window_props.ypos window_props_default = INT32_MIN
   \<and> sint INT32_MIN = - 2147483648"
  by (simp add: window_props_default_def INT32_MIN_def)

subsection \<open>str\<close>

lemma str_single_line_iff: "single_line (str w) = single_line (data.title (m_data w))"
proof -
  have lit: \<open>single_line ''mono::window { title: "''\<close> \<open>single_line ''", width: ''\<close>
    \<open>single_line '', height: ''\<close> \<open>single_line '', buffer_width: ''\<close>
    \<open>single_line '', buffer_height: ''\<close> \<open>single_line '' }''\<close>
    by (simp_all add: single_line_def)
  show ?thesis
    by (simp only: str_unfold single_line_append lit to_string_single_line simp_thms)
qed

lemma str_example: \<open>str example_window =
  ''mono::window { title: "fractals", width: 738, height: 480, buffer_width: 1476, buffer_height: 960 }''\<close>
  by code_simp

text \<open>
  C3, as the code has it: \<open>str\<close> returns the labels and the five mirrored fields in the
  order title, width, height, buffer_width, buffer_height, the title between double
  quotes and the numbers in decimal; the string is a single line exactly when the title
  holds no line break, since the title is copied as it is.
\<close>

theorem str_format:
  \<open>str w =
     ''mono::window { title: "'' @ data.title (m_data w) @
     ''", width: '' @ to_string (data.width (m_data w)) @
     '', height: '' @ to_string (data.height (m_data w)) @
     '', buffer_width: '' @ to_string (data.buffer_width (m_data w)) @
     '', buffer_height: '' @ to_string (data.buffer_height (m_data w)) @ '' }''
   \<and> single_line (str w) = single_line (data.title (m_data w))\<close>
  using str_unfold [of w] str_single_line_iff [of w] by blast

text \<open>C3 as stated fails for a window whose title holds a line feed: its \<open>str\<close> has two lines.\<close>

theorem str_title_line_feed: "\<not> single_line (str two_line_window)"
proof -
  have "\<not> single_line (data.title (m_data two_line_window))"
    by (simp add: two_line_window_def single_line_def)
  then show ?thesis
    unfolding str_single_line_iff .
qed

text \<open>
  C10: two windows that agree on the mirrored title, width, height, buffer_width and
  buffer_height have the same \<open>str\<close>, whatever their positions, listener registries,
  key states and native handles are.
\<close>

theorem str_depends_on_printed_fields:
  assumes "data.title (m_data w) = data.title (m_data w')"
    and "data.width (m_data w) = data.width (m_data w')"
    and "data.height (m_data w) = data.height (m_data w')"
    and "data.buffer_width (m_data w) = data.buffer_width (m_data w')"
    and "data.buffer_height (m_data w) = data.buffer_height (m_data w')"
  shows "str w = str w'"
  using assms by (simp add: str_def)

theorem str_depends_on_printed_fields_witness:
  "data.title (m_data example_window) = data.title (m_data moved_window)
   \<and> data.width (m_data example_window) = data.width (m_data moved_window)
   \<and> data.height (m_data example_window) = data.height (m_data moved_window)
   \<and> data.buffer_width (m_data example_window) = data.buffer_width (m_data moved_window)
   \<and> data.buffer_height (m_data example_window) = data.buffer_height (m_data moved_window)
   \<and> data.xpos (m_data example_window) \<noteq> data.xpos (m_data moved_window)
   \<and> data.ypos (m_data example_window) \<noteq> data.ypos (m_data moved_window)
   \<and> data.events (m_data example_window) \<noteq> data.events (m_data moved_window)
   \<and> m_keys example_window \<noteq> m_keys moved_window
   \<and> str example_window = str moved_window"
proof -
  have f: "data.title (m_data example_window) = data.title (m_data moved_window)"
    "data.width (m_data example_window) = data.width (m_data moved_window)"
    "data.height (m_data example_window) = data.height (m_data moved_window)"
    "data.buffer_width (m_data example_window) = data.buffer_width (m_data moved_window)"
    "data.buffer_height (m_data example_window) = data.buffer_height (m_data moved_window)"
    by (simp_all add: example_window_def moved_window_def)
  have g: "data.xpos (m_data example_window) \<noteq> data.xpos (m_data moved_window)"
    "data.ypos (m_data example_window) \<noteq> data.ypos (m_data moved_window)"
    "m_keys example_window \<noteq> m_keys moved_window"
    by (simp_all add: example_window_def moved_window_def example_data_def)
  have "data.events (m_data example_window) 0 \<noteq> data.events (m_data moved_window) 0"
    by (simp add: example_window_def moved_window_def example_data_def)
  then have e: "data.events (m_data example_window) \<noteq> data.events (m_data moved_window)"
    by metis
  from str_depends_on_printed_fields [OF f] have "str example_window = str moved_window" .
  with f g e show ?thesis by blast
qed

subsection \<open>Queries and set_position\<close>





text \<open>
  C8: \<open>width\<close>, \<open>height\<close>, \<open>buffer_width\<close>, \<open>buffer_height\<close>, \<open>xpos\<close> and \<open>ypos\<close>
  return the field of the mirrored block and leave the window and the backend as they
  were, whatever the backend is. \<open>shouldclose\<close> instead returns what the backend's
  \<open>glfwWindowShouldClose\<close> answers for the window's handle: its result does not depend
  on the mirrored block, and it differs between two backend states for one and the same
  window.
\<close>

theorem queries_read_mirrored_data:
  "width (w, b) = (data.width (m_data w), (w, b))
   \<and> height (w, b) = (data.height (m_data w), (w, b))
   \<and> buffer_width (w, b) = (data.buffer_width (m_data w), (w, b))
   \<and> buffer_height (w, b) = (data.buffer_height (m_data w), (w, b))
   \<and> xpos (w, b) = (data.xpos (m_data w), (w, b))
   \<and> ypos (w, b) = (data.ypos (m_data w), (w, b))
   \<and> shouldclose api (w, b) =
        (fst (glfwWindowShouldClose api (m_window w) b) \<noteq> 0,
         (w, snd (glfwWindowShouldClose api (m_window w) b)))
   \<and> fst (shouldclose api (w\<lparr>m_data := d\<rparr>, b)) = fst (shouldclose api (w, b))
   \<and> fst (shouldclose fake_glfw (w, fake_open)) \<noteq> fst (shouldclose fake_glfw (w, fake_closing))"
  by (simp add: width_def height_def buffer_width_def buffer_height_def xpos_def ypos_def
      shouldclose_def split_beta fake_glfw_def fake_open_def fake_closing_def)

subsection \<open>Key states\<close>

lemma heap_get_key_make:
  "heap_get (snd (key_make k h)) (fst (key_make k h)) = Some \<lparr>code = k, use_count = 1\<rparr>"
  by (simp add: key_make_def heap_get_def)

lemma length_ref_copy: "length (ref_copy r h) = length h"
  by (simp add: ref_copy_def split: option.splits)

lemma length_ref_release: "length (ref_release r h) = length h"
  by (simp add: ref_release_def split: option.splits)

lemma heap_get_ref_copy:
  "heap_get h r = Some c \<Longrightarrow>
     heap_get (ref_copy r h) r = Some (c\<lparr>use_count := Suc (use_count c)\<rparr>)"
  by (auto simp: ref_copy_def heap_get_def split: if_splits)

lemma heap_get_ref_release:
  "heap_get h r = Some c \<Longrightarrow> 1 < use_count c \<Longrightarrow>
     heap_get (ref_release r h) r = Some (c\<lparr>use_count := use_count c - 1\<rparr>)"
  by (auto simp: ref_release_def heap_get_def split: if_splits)

lemma heap_get_copies:
  "heap_get h r = Some c \<Longrightarrow>
     heap_get ((ref_copy r ^^ n) h) r = Some (c\<lparr>use_count := use_count c + n\<rparr>)"
proof (induction n)
  case 0
  then show ?case by simp
next
  case (Suc n)
  from Suc.IH [OF Suc.prems] show ?case
    by (simp add: heap_get_ref_copy)
qed

lemma heap_get_releases:
  "heap_get h r = Some c \<Longrightarrow> m < use_count c \<Longrightarrow>
     heap_get ((ref_release r ^^ m) h) r = Some (c\<lparr>use_count := use_count c - m\<rparr>)"
proof (induction m)
  case 0
  then show ?case by simp
next
  case (Suc m)
  from Suc.prems have "m < use_count c" by simp
  with Suc.IH Suc.prems(1)
  have "heap_get ((ref_release r ^^ m) h) r = Some (c\<lparr>use_count := use_count c - m\<rparr>)"
    by blast
  moreover from Suc.prems have "1 < use_count (c\<lparr>use_count := use_count c - m\<rparr>)"
    by simp
  ultimately show ?case
    by (simp add: heap_get_ref_release)
qed

lemma make_key_result:
  "make_key key (w, h) =
     (Suc (length h),
      (w\<lparr>m_keys := m_keys w @ [Suc (length h)]\<rparr>,
       ref_copy (Suc (length h)) (h @ [Some \<lparr>code = key, use_count = 1\<rparr>])))"
  by (simp add: make_key_def key_make_def)

lemma heap_get_make_key:
  "heap_get (snd (snd (make_key key (w, h)))) (fst (make_key key (w, h)))
     = Some \<lparr>code = key, use_count = 2\<rparr>"
proof -
  have "heap_get (h @ [Some \<lparr>code = key, use_count = 1\<rparr>]) (Suc (length h))
          = Some \<lparr>code = key, use_count = 1\<rparr>"
    by (simp add: heap_get_def)
  from heap_get_ref_copy [OF this] show ?thesis
    by (simp add: make_key_result)
qed

text \<open>
  C7: \<open>make_key\<close> returns a reference that is not null, to a key state that wraps the
  code and is held twice, by the window's \<open>m_keys\<close> and by the caller. When the external
  holders have made any number \<open>n\<close> of further copies and released all \<open>n + 1\<close>
  references, the object is still there, held once.
\<close>

theorem make_key_retained:
  "fst (make_key key (w, h)) \<noteq> 0
   \<and> heap_get (snd (snd (make_key key (w, h)))) (fst (make_key key (w, h)))
        = Some \<lparr>code = key, use_count = 2\<rparr>
   \<and> fst (make_key key (w, h)) \<in> set (m_keys (fst (snd (make_key key (w, h)))))
   \<and> heap_get ((ref_release (fst (make_key key (w, h))) ^^ Suc n)
                  ((ref_copy (fst (make_key key (w, h))) ^^ n) (snd (snd (make_key key (w, h))))))
               (fst (make_key key (w, h)))
        = Some \<lparr>code = key, use_count = 1\<rparr>"
proof -
  let ?r = "fst (make_key key (w, h))"
  let ?h = "snd (snd (make_key key (w, h)))"
  have a: "?r \<noteq> 0" by (simp add: make_key_result)
  have b: "heap_get ?h ?r = Some \<lparr>code = key, use_count = 2\<rparr>" by (rule heap_get_make_key)
  have c: "?r \<in> set (m_keys (fst (snd (make_key key (w, h)))))" by (simp add: make_key_result)
  from heap_get_copies [OF b, of n]
  have d: "heap_get ((ref_copy ?r ^^ n) ?h) ?r = Some \<lparr>code = key, use_count = 2 + n\<rparr>"
    by simp
  have "heap_get ((ref_release ?r ^^ Suc n) ((ref_copy ?r ^^ n) ?h)) ?r
          = Some (\<lparr>code = key, use_count = 2 + n\<rparr>\<lparr>use_count := use_count \<lparr>code = key, use_count = 2 + n\<rparr> - Suc n\<rparr>)"
    by (rule heap_get_releases [OF d]) simp
  then have e: "heap_get ((ref_release ?r ^^ Suc n) ((ref_copy ?r ^^ n) ?h)) ?r
          = Some \<lparr>code = key, use_count = 1\<rparr>"
    by simp
  from a b c e show ?thesis by blast
qed




lemma make_key_same_code_twice:
  "m_keys (fst (run fake_glfw [Make_key 65, Make_key 65] (example_window, fake_open, []))) = [1, 2]"
  by (simp add: run_def make_key_result length_ref_copy example_window_def)


end
